theory Spec2Isabelle
  imports Complex_Main
begin

section \<open>Data model of the snake game component\<close>

text \<open>
  The component \<open>TechSnakeGame\<close> keeps its state in React state cells and one mutable
  reference. The model gathers them in one record, passed explicitly and returned
  updated. JavaScript numbers that only ever hold small whole values (coordinates, score,
  tick interval) are \<open>int\<close>: on them the double arithmetic of the engine is exact. Frame
  timestamps, which the browser delivers as fractional milliseconds, and the numbers
  drawn by \<open>Math.random()\<close> are \<open>real\<close>. The two calls of \<open>Math.random()\<close> made by
  \<open>generateFood\<close> are an explicit argument: the pair of numbers they return.
\<close>

text \<open>
  Two operations of the component work on fractional doubles and round their result:
  the subtraction \<open>timestamp - lastUpdateTime.current\<close> and the multiplication
  \<open>Math.random() * GRID_SIZE\<close>. The rounding is not modelled. Both operations are taken
  as given, in a record that every function of the model receives, and a theorem that
  needs a property of them has it as a hypothesis.
\<close>

record Arith =
  dsub :: "real \<Rightarrow> real \<Rightarrow> real"
  dmul :: "real \<Rightarrow> real \<Rightarrow> real"

text \<open>
  Arithmetic without rounding. It computes what the doubles compute wherever the exact
  result is a double again, as it is for the whole numbers and the fractions 1/2 and
  1/4 of the examples below.
\<close>

definition exactArith :: Arith where
  "exactArith = \<lparr>dsub = (\<lambda>a b. a - b), dmul = (\<lambda>a b. a * b)\<rparr>"

definition GRID_SIZE :: int where
  "GRID_SIZE = 20"

definition INITIAL_SPEED :: int where
  "INITIAL_SPEED = 150"

record Position =
  x :: int
  y :: int

datatype Direction = UP | DOWN | LEFT | RIGHT

record GameState =
  snake :: "Position list"
  food :: Position
  direction :: Direction
  nextDirection :: Direction
  gameOver :: bool
  score :: int
  speed :: int
  trailEffect :: "Position list"
  lastUpdateTime :: real

text \<open>The values the state cells are created with (the \<open>useState\<close> and \<open>useRef\<close> calls).\<close>

definition initialState :: GameState where
  "initialState =
     \<lparr>snake = [\<lparr>x = 10, y = 10\<rparr>], food = \<lparr>x = 5, y = 5\<rparr>,
      direction = RIGHT, nextDirection = RIGHT, gameOver = False,
      score = 0, speed = INITIAL_SPEED, trailEffect = [], lastUpdateTime = 0\<rparr>"

section \<open>Operations\<close>

text \<open>\<open>generateFood\<close>: each coordinate is \<open>Math.floor(Math.random() * GRID_SIZE)\<close>.\<close>

definition generateFood :: "Arith \<Rightarrow> real \<times> real \<Rightarrow> Position" where
  "generateFood ar rnd =
     \<lparr>x = \<lfloor>dmul ar (fst rnd) (real_of_int GRID_SIZE)\<rfloor>,
      y = \<lfloor>dmul ar (snd rnd) (real_of_int GRID_SIZE)\<rfloor>\<rparr>"

text \<open>\<open>resetGame\<close> calls every setter with a constant, and clears the scheduler's baseline.\<close>

definition resetGame :: "Arith \<Rightarrow> real \<times> real \<Rightarrow> GameState \<Rightarrow> GameState" where
  "resetGame ar rnd s =
     s\<lparr>snake := [\<lparr>x = 10, y = 10\<rparr>], food := generateFood ar rnd,
       direction := RIGHT, nextDirection := RIGHT, gameOver := False,
       score := 0, speed := INITIAL_SPEED, trailEffect := [], lastUpdateTime := 0\<rparr>"

text \<open>The \<open>switch\<close> on the direction, applied to a copy of the head.\<close>

fun moveHead :: "Direction \<Rightarrow> Position \<Rightarrow> Position" where
  "moveHead UP head = head\<lparr>y := y head - 1\<rparr>"
| "moveHead DOWN head = head\<lparr>y := y head + 1\<rparr>"
| "moveHead LEFT head = head\<lparr>x := x head - 1\<rparr>"
| "moveHead RIGHT head = head\<lparr>x := x head + 1\<rparr>"

text \<open>The condition of the wall check and of the self check (\<open>prevSnake.some(...)\<close>).\<close>

definition hitsWall :: "Position \<Rightarrow> bool" where
  "hitsWall head \<longleftrightarrow>
     x head < 0 \<or> x head \<ge> GRID_SIZE \<or> y head < 0 \<or> y head \<ge> GRID_SIZE"

definition hitsSelf :: "Position list \<Rightarrow> Position \<Rightarrow> bool" where
  "hitsSelf prevSnake head \<longleftrightarrow>
     list_ex (\<lambda>segment. x segment = x head \<and> y segment = y head) prevSnake"

text \<open>
  The function given to \<open>setSnake\<close>, together with the setters it calls. On an empty
  array \<open>prevSnake[0]\<close> is \<open>undefined\<close>, the moved coordinate is \<open>NaN\<close>, every comparison
  with it is false, and the one-element array built from it is emptied again by \<open>pop\<close>:
  only the direction is committed.
\<close>

definition setSnakeUpdater :: "Arith \<Rightarrow> real \<times> real \<Rightarrow> GameState \<Rightarrow> GameState" where
  "setSnakeUpdater ar rnd s =
     (case snake s of
        [] \<Rightarrow> s\<lparr>direction := nextDirection s\<rparr>
      | first # rest \<Rightarrow>
          let prevSnake = snake s;
              currentDirection = nextDirection s;
              head = moveHead currentDirection first
          in if hitsWall head then s\<lparr>gameOver := True\<rparr>
             else if hitsSelf prevSnake head then s\<lparr>gameOver := True\<rparr>
             else
               let newSnake = head # prevSnake
               in if x head = x (food s) \<and> y head = y (food s)
                  then s\<lparr>snake := newSnake,
                         food := generateFood ar rnd,
                         score := score s + 10,
                         speed := max (speed s - 5) 50,
                         trailEffect := trailEffect s @ take 3 newSnake,
                         direction := currentDirection\<rparr>
                  else s\<lparr>snake := butlast newSnake, direction := currentDirection\<rparr>)"

text \<open>
  One simulation step: the guard at the top of \<open>moveSnake\<close> followed by the update,
  without the timing gate between them.
\<close>

definition step :: "Arith \<Rightarrow> real \<times> real \<Rightarrow> GameState \<Rightarrow> GameState" where
  "step ar rnd s = (if gameOver s then s else setSnakeUpdater ar rnd s)"

text \<open>
  The frame callback \<open>moveSnake(timestamp)\<close>. The baseline \<open>lastUpdateTime\<close> counts as
  unset when it is \<open>0\<close> (the test is \<open>!lastUpdateTime.current\<close>). The elapsed time is
  the difference as the engine computes it.
\<close>

definition moveSnake :: "Arith \<Rightarrow> real \<times> real \<Rightarrow> real \<Rightarrow> GameState \<Rightarrow> GameState" where
  "moveSnake ar rnd timestamp s =
     (if gameOver s then s
      else
        let s1 = (if lastUpdateTime s = 0 then s\<lparr>lastUpdateTime := timestamp\<rparr> else s);
            elapsed = dsub ar timestamp (lastUpdateTime s1)
        in if elapsed < real_of_int (speed s1) then s1
           else setSnakeUpdater ar rnd (s1\<lparr>lastUpdateTime := timestamp\<rparr>))"

text \<open>The on-screen arrow buttons: \<open>direction !== 'DOWN' && setNextDirection('UP')\<close> etc.\<close>

fun requestDirection :: "Direction \<Rightarrow> GameState \<Rightarrow> GameState" where
  "requestDirection UP s = (if direction s \<noteq> DOWN then s\<lparr>nextDirection := UP\<rparr> else s)"
| "requestDirection LEFT s = (if direction s \<noteq> RIGHT then s\<lparr>nextDirection := LEFT\<rparr> else s)"
| "requestDirection DOWN s = (if direction s \<noteq> UP then s\<lparr>nextDirection := DOWN\<rparr> else s)"
| "requestDirection RIGHT s = (if direction s \<noteq> LEFT then s\<lparr>nextDirection := RIGHT\<rparr> else s)"

text \<open>The keyboard listener; any other key falls through the \<open>switch\<close>.\<close>

definition handleKeyDown :: "string \<Rightarrow> GameState \<Rightarrow> GameState" where
  "handleKeyDown key s =
     (if key = ''ArrowUp'' then (if direction s \<noteq> DOWN then s\<lparr>nextDirection := UP\<rparr> else s)
      else if key = ''ArrowDown'' then (if direction s \<noteq> UP then s\<lparr>nextDirection := DOWN\<rparr> else s)
      else if key = ''ArrowLeft'' then (if direction s \<noteq> RIGHT then s\<lparr>nextDirection := LEFT\<rparr> else s)
      else if key = ''ArrowRight'' then (if direction s \<noteq> LEFT then s\<lparr>nextDirection := RIGHT\<rparr> else s)
      else s)"

text \<open>The opposite pairs as the specification names them: UP-DOWN and LEFT-RIGHT.\<close>

fun opposite :: "Direction \<Rightarrow> Direction" where
  "opposite UP = DOWN"
| "opposite DOWN = UP"
| "opposite LEFT = RIGHT"
| "opposite RIGHT = LEFT"

section \<open>Runs\<close>

text \<open>
  What can happen to the component, and the state after a sequence of such events.
  Steps and resets are the operations of the specification; key presses, button
  clicks and frames are the ways the browser reaches them.
\<close>

datatype Event =
    Step "real \<times> real"
  | Reset "real \<times> real"
  | KeyDown string
  | Click Direction
  | Frame "real \<times> real" real

fun applyEvent :: "Arith \<Rightarrow> Event \<Rightarrow> GameState \<Rightarrow> GameState" where
  "applyEvent ar (Step rnd) s = step ar rnd s"
| "applyEvent ar (Reset rnd) s = resetGame ar rnd s"
| "applyEvent ar (KeyDown key) s = handleKeyDown key s"
| "applyEvent ar (Click d) s = requestDirection d s"
| "applyEvent ar (Frame rnd timestamp) s = moveSnake ar rnd timestamp s"

definition run :: "Arith \<Rightarrow> Event list \<Rightarrow> GameState \<Rightarrow> GameState" where
  "run ar evs s = fold (applyEvent ar) evs s"

text \<open>
  A position inside the grid, and the two invariants of the reachable states: the body
  and the score with the tick interval.
\<close>

definition inGrid :: "Position \<Rightarrow> bool" where
  "inGrid p \<longleftrightarrow> 0 \<le> x p \<and> x p < GRID_SIZE \<and> 0 \<le> y p \<and> y p < GRID_SIZE"

definition bodyOk :: "GameState \<Rightarrow> bool" where
  "bodyOk s \<longleftrightarrow> snake s \<noteq> [] \<and> list_all inGrid (snake s)"

definition scoreOk :: "GameState \<Rightarrow> bool" where
  "scoreOk s \<longleftrightarrow>
     score s = 10 * (int (length (snake s)) - 1) \<and>
     speed s = max (150 - score s div 2) 50 \<and> snake s \<noteq> []"

text \<open>The key name that belongs to each direction in the keyboard listener.\<close>

fun arrowKey :: "Direction \<Rightarrow> string" where
  "arrowKey UP = ''ArrowUp''"
| "arrowKey DOWN = ''ArrowDown''"
| "arrowKey LEFT = ''ArrowLeft''"
| "arrowKey RIGHT = ''ArrowRight''"

section \<open>Some concrete states\<close>

text \<open>
  A game played from the start: up five cells, then left five cells onto the first food
  at (5,5), then the up key. The snake now has two segments lying side by side and is
  about to turn.
\<close>

definition bentRun :: "Event list" where
  "bentRun =
     [KeyDown ''ArrowUp'', Step (0, 0), Step (0, 0), Step (0, 0), Step (0, 0), Step (0, 0),
      KeyDown ''ArrowLeft'', Step (0, 0), Step (0, 0), Step (0, 0), Step (0, 0), Step (0, 0),
      KeyDown ''ArrowUp'']"

definition bentState :: GameState where
  "bentState = run exactArith bentRun initialState"

text \<open>A snake of four segments curled into a square, its head about to enter the tail's cell.\<close>

definition loopState :: GameState where
  "loopState =
     initialState\<lparr>snake := [\<lparr>x = 5, y = 5\<rparr>, \<lparr>x = 6, y = 5\<rparr>, \<lparr>x = 6, y = 6\<rparr>, \<lparr>x = 5, y = 6\<rparr>],
       direction := LEFT, nextDirection := DOWN, score := 30, speed := 135\<rparr>"

text \<open>The start of a game after the up button: committed RIGHT, pending UP.\<close>

definition pendingUpState :: GameState where
  "pendingUpState = requestDirection UP initialState"

section \<open>Basic facts\<close>

lemma Position_eqI: "x p = x q \<Longrightarrow> y p = y q \<Longrightarrow> p = (q :: Position)"
  by simp

lemma hitsSelf_iff: "hitsSelf body p \<longleftrightarrow> p \<in> set body"
  by (auto simp: hitsSelf_def list_ex_iff dest: Position_eqI)

lemma hitsWall_iff: "hitsWall p \<longleftrightarrow> \<not> inGrid p"
  by (auto simp: hitsWall_def inGrid_def)

lemma step_terminal: "gameOver s \<Longrightarrow> step ar rnd s = s"
  by (simp add: step_def)

lemma moveSnake_terminal: "gameOver s \<Longrightarrow> moveSnake ar rnd timestamp s = s"
  by (simp add: moveSnake_def)

lemmas eval_defs =
  run_def step_def setSnakeUpdater_def handleKeyDown_def hitsWall_def hitsSelf_def
  generateFood_def exactArith_def initialState_def GRID_SIZE_def INITIAL_SPEED_def
  Let_def inGrid_def

lemma Position_eq_iff: "x p = x q \<and> y p = y q \<longleftrightarrow> p = (q :: Position)"
  by auto

lemma generateFood_inGrid:
  assumes "\<forall>r. 0 \<le> r \<and> r < 1 \<longrightarrow>
             0 \<le> dmul ar r (real_of_int GRID_SIZE) \<and>
             dmul ar r (real_of_int GRID_SIZE) < real_of_int GRID_SIZE"
    and "0 \<le> fst rnd" and "fst rnd < 1" and "0 \<le> snd rnd" and "snd rnd < 1"
  shows "inGrid (generateFood ar rnd)"
proof -
  from assms have "0 \<le> dmul ar (fst rnd) (real_of_int GRID_SIZE)"
    "dmul ar (fst rnd) (real_of_int GRID_SIZE) < real_of_int GRID_SIZE"
    "0 \<le> dmul ar (snd rnd) (real_of_int GRID_SIZE)"
    "dmul ar (snd rnd) (real_of_int GRID_SIZE) < real_of_int GRID_SIZE"
    by blast+
  then show ?thesis
    by (simp add: generateFood_def inGrid_def floor_less_iff)
qed

lemma exactArith_dmul_range:
  "\<forall>r. 0 \<le> r \<and> r < 1 \<longrightarrow>
     0 \<le> dmul exactArith r (real_of_int GRID_SIZE) \<and>
     dmul exactArith r (real_of_int GRID_SIZE) < real_of_int GRID_SIZE"
  by (simp add: exactArith_def GRID_SIZE_def)

lemma exactArith_dsub_same: "\<forall>a. dsub exactArith a a = 0"
  by (simp add: exactArith_def)

lemma exactArith_dsub_whole:
  "\<forall>i j. 0 \<le> i \<and> i \<le> 2 ^ 53 \<and> 0 \<le> j \<and> j \<le> 2 ^ 53 \<longrightarrow>
     dsub exactArith (real_of_int i) (real_of_int j) = real_of_int (i - j)"
  by (simp add: exactArith_def)

lemma bentState_eq:
  "bentState =
     \<lparr>snake = [\<lparr>x = 5, y = 5\<rparr>, \<lparr>x = 6, y = 5\<rparr>], food = \<lparr>x = 0, y = 0\<rparr>,
      direction = LEFT, nextDirection = UP, gameOver = False,
      score = 10, speed = 145,
      trailEffect = [\<lparr>x = 5, y = 5\<rparr>, \<lparr>x = 6, y = 5\<rparr>], lastUpdateTime = 0\<rparr>"
  by (simp add: bentState_def bentRun_def eval_defs)

subsection \<open>The branches of a step\<close>

lemma step_collision:
  assumes "\<not> gameOver s" and "snake s = h # t"
    and "\<not> inGrid (moveHead (nextDirection s) h) \<or> moveHead (nextDirection s) h \<in> set (snake s)"
  shows "step ar rnd s = s\<lparr>gameOver := True\<rparr>"
  using assms by (auto simp: step_def setSnakeUpdater_def Let_def hitsWall_iff hitsSelf_iff)

lemma step_eat:
  assumes "\<not> gameOver s" and "snake s = h # t"
    and "inGrid (moveHead (nextDirection s) h)"
    and "moveHead (nextDirection s) h \<notin> set (snake s)"
    and "moveHead (nextDirection s) h = food s"
  shows "step ar rnd s =
           s\<lparr>snake := moveHead (nextDirection s) h # snake s,
             food := generateFood ar rnd,
             score := score s + 10,
             speed := max (speed s - 5) 50,
             trailEffect := trailEffect s @ take 3 (moveHead (nextDirection s) h # snake s),
             direction := nextDirection s\<rparr>"
  using assms
  by (simp add: step_def setSnakeUpdater_def Let_def hitsWall_iff hitsSelf_iff Position_eq_iff)

lemma step_move:
  assumes "\<not> gameOver s" and "snake s = h # t"
    and "inGrid (moveHead (nextDirection s) h)"
    and "moveHead (nextDirection s) h \<notin> set (snake s)"
    and "moveHead (nextDirection s) h \<noteq> food s"
  shows "step ar rnd s =
           s\<lparr>snake := moveHead (nextDirection s) h # butlast (snake s),
             direction := nextDirection s\<rparr>"
  using assms
  by (simp add: step_def setSnakeUpdater_def Let_def hitsWall_iff hitsSelf_iff Position_eq_iff)

lemma step_head:
  assumes "\<not> gameOver s" and "snake s = h # t"
    and "inGrid (moveHead (nextDirection s) h)"
    and "moveHead (nextDirection s) h \<notin> set (snake s)"
  shows "hd (snake (step ar rnd s)) = moveHead (nextDirection s) h"
proof (cases "moveHead (nextDirection s) h = food s")
  case True
  show ?thesis unfolding step_eat [OF assms True] by simp
next
  case False
  show ?thesis unfolding step_move [OF assms False] by simp
qed

lemma lastUpdateTime_setSnakeUpdater:
  "lastUpdateTime (setSnakeUpdater ar rnd s) = lastUpdateTime s"
  by (simp add: setSnakeUpdater_def Let_def split: list.splits)

lemma lastUpdateTime_step: "lastUpdateTime (step ar rnd s) = lastUpdateTime s"
  by (simp add: step_def lastUpdateTime_setSnakeUpdater)

subsection \<open>The direction buffer\<close>

lemma requestDirection_accept:
  "r \<noteq> opposite (direction s) \<Longrightarrow> requestDirection r s = s\<lparr>nextDirection := r\<rparr>"
  by (cases r; cases "direction s") simp_all

lemma requestDirection_reject:
  "r = opposite (direction s) \<Longrightarrow> requestDirection r s = s"
  by (cases "direction s") simp_all

lemma handleKeyDown_arrowKey: "handleKeyDown (arrowKey r) s = requestDirection r s"
  by (cases r) (simp_all add: handleKeyDown_def)

subsection \<open>The frame callback\<close>

lemma moveSnake_unset:
  "\<not> gameOver s \<Longrightarrow> 0 < speed s \<Longrightarrow> lastUpdateTime s = 0 \<Longrightarrow> dsub ar T T = 0 \<Longrightarrow>
   moveSnake ar rnd T s = s\<lparr>lastUpdateTime := T\<rparr>"
  by (simp add: moveSnake_def)

lemma moveSnake_wait:
  "\<not> gameOver s \<Longrightarrow> lastUpdateTime s \<noteq> 0 \<Longrightarrow>
   dsub ar T (lastUpdateTime s) < real_of_int (speed s) \<Longrightarrow>
   moveSnake ar rnd T s = s"
  by (simp add: moveSnake_def)

lemma moveSnake_tick:
  "\<not> gameOver s \<Longrightarrow> lastUpdateTime s \<noteq> 0 \<Longrightarrow>
   real_of_int (speed s) \<le> dsub ar T (lastUpdateTime s) \<Longrightarrow>
   moveSnake ar rnd T s = step ar rnd (s\<lparr>lastUpdateTime := T\<rparr>)"
  by (simp add: moveSnake_def step_def)

section \<open>Invariants of the reachable states\<close>

lemma list_all_butlast: "list_all P xs \<Longrightarrow> list_all P (butlast xs)"
  by (auto simp: list_all_iff dest: in_set_butlastD)

lemma bodyOk_setSnakeUpdater: "bodyOk s \<Longrightarrow> bodyOk (setSnakeUpdater ar rnd s)"
  by (auto simp: bodyOk_def setSnakeUpdater_def Let_def hitsWall_iff
      intro: list_all_butlast split: list.splits)

lemma bodyOk_step: "bodyOk s \<Longrightarrow> bodyOk (step ar rnd s)"
  by (simp add: step_def bodyOk_setSnakeUpdater)

lemma bodyOk_lastUpdateTime: "bodyOk (s\<lparr>lastUpdateTime := t\<rparr>) = bodyOk s"
  by (simp add: bodyOk_def)

lemma bodyOk_moveSnake: "bodyOk s \<Longrightarrow> bodyOk (moveSnake ar rnd t s)"
  by (simp add: moveSnake_def Let_def bodyOk_setSnakeUpdater bodyOk_lastUpdateTime)

lemma bodyOk_resetGame: "bodyOk (resetGame ar rnd s)"
  by (simp add: bodyOk_def resetGame_def inGrid_def GRID_SIZE_def)

lemma bodyOk_handleKeyDown: "bodyOk s \<Longrightarrow> bodyOk (handleKeyDown k s)"
  by (simp add: bodyOk_def handleKeyDown_def)

lemma bodyOk_requestDirection: "bodyOk s \<Longrightarrow> bodyOk (requestDirection d s)"
  by (cases d) (simp_all add: bodyOk_def)

lemma bodyOk_applyEvent: "bodyOk s \<Longrightarrow> bodyOk (applyEvent ar e s)"
  by (cases e)
    (simp_all add: bodyOk_step bodyOk_resetGame bodyOk_handleKeyDown
      bodyOk_requestDirection bodyOk_moveSnake)

lemma bodyOk_run: "bodyOk s \<Longrightarrow> bodyOk (run ar evs s)"
  unfolding run_def by (induction evs arbitrary: s) (simp_all add: bodyOk_applyEvent)

lemma bodyOk_initialState: "bodyOk initialState"
  by (simp add: bodyOk_def initialState_def inGrid_def GRID_SIZE_def)

text \<open>
  C1. After any sequence of steps and resets from the initial state (and of key presses,
  button clicks and frames as well), the snake has at least one segment and every
  segment has both coordinates in [0, GRID_SIZE), that is in [0, 20).
\<close>

theorem reachable_body_in_grid:
  "snake (run ar evs initialState) \<noteq> [] \<and>
   (\<forall>p \<in> set (snake (run ar evs initialState)).
      0 \<le> x p \<and> x p < GRID_SIZE \<and> 0 \<le> y p \<and> y p < GRID_SIZE) \<and>
   GRID_SIZE = 20"
  using bodyOk_run [OF bodyOk_initialState, of ar evs]
  by (simp add: bodyOk_def list_all_iff inGrid_def GRID_SIZE_def)

theorem reachable_body_in_grid_witness:
  "snake (run exactArith [KeyDown ''ArrowUp'', Step (0, 0), Reset (1/2, 1/4), Step (0, 0)] initialState) \<noteq> [] \<and>
   list_all inGrid (snake (run exactArith [KeyDown ''ArrowUp'', Step (0, 0), Reset (1/2, 1/4), Step (0, 0)] initialState))"
  using reachable_body_in_grid [of exactArith "[KeyDown ''ArrowUp'', Step (0, 0), Reset (1/2, 1/4), Step (0, 0)]"]
  by (simp add: list_all_iff inGrid_def)

lemma scoreOk_setSnakeUpdater: "scoreOk s \<Longrightarrow> scoreOk (setSnakeUpdater ar rnd s)"
  by (auto simp: scoreOk_def setSnakeUpdater_def Let_def split: list.splits)

lemma scoreOk_step: "scoreOk s \<Longrightarrow> scoreOk (step ar rnd s)"
  by (simp add: step_def scoreOk_setSnakeUpdater)

lemma scoreOk_lastUpdateTime: "scoreOk (s\<lparr>lastUpdateTime := t\<rparr>) = scoreOk s"
  by (simp add: scoreOk_def)

lemma scoreOk_moveSnake: "scoreOk s \<Longrightarrow> scoreOk (moveSnake ar rnd t s)"
  by (simp add: moveSnake_def Let_def scoreOk_setSnakeUpdater scoreOk_lastUpdateTime)

lemma scoreOk_resetGame: "scoreOk (resetGame ar rnd s)"
  by (simp add: scoreOk_def resetGame_def INITIAL_SPEED_def)

lemma scoreOk_handleKeyDown: "scoreOk s \<Longrightarrow> scoreOk (handleKeyDown k s)"
  by (simp add: scoreOk_def handleKeyDown_def)

lemma scoreOk_requestDirection: "scoreOk s \<Longrightarrow> scoreOk (requestDirection d s)"
  by (cases d) (simp_all add: scoreOk_def)

lemma scoreOk_applyEvent: "scoreOk s \<Longrightarrow> scoreOk (applyEvent ar e s)"
  by (cases e)
    (simp_all add: scoreOk_step scoreOk_resetGame scoreOk_handleKeyDown
      scoreOk_requestDirection scoreOk_moveSnake)

lemma scoreOk_run: "scoreOk s \<Longrightarrow> scoreOk (run ar evs s)"
  unfolding run_def by (induction evs arbitrary: s) (simp_all add: scoreOk_applyEvent)

lemma scoreOk_initialState: "scoreOk initialState"
  by (simp add: scoreOk_def initialState_def INITIAL_SPEED_def)

text \<open>
  C10. After any such sequence the score is ten times the number of segments beyond the
  first, and the tick interval is max(150 - score/2, 50); so the score is a non-negative
  multiple of 10 and the tick interval lies in [50, 150].
\<close>

theorem reachable_score_speed:
  "score (run ar evs initialState) = 10 * (int (length (snake (run ar evs initialState))) - 1) \<and>
   speed (run ar evs initialState) = max (150 - score (run ar evs initialState) div 2) 50 \<and>
   0 \<le> score (run ar evs initialState) \<and>
   score (run ar evs initialState) mod 10 = 0 \<and>
   50 \<le> speed (run ar evs initialState) \<and> speed (run ar evs initialState) \<le> 150"
proof -
  let ?s = "run ar evs initialState"
  have ok: "scoreOk ?s"
    by (rule scoreOk_run [OF scoreOk_initialState])
  then have len: "1 \<le> int (length (snake ?s))"
    by (cases "snake ?s") (simp_all add: scoreOk_def)
  from ok have sc: "score ?s = 10 * (int (length (snake ?s)) - 1)"
    and sp: "speed ?s = max (150 - score ?s div 2) 50"
    by (simp_all add: scoreOk_def)
  from sc len have "0 \<le> score ?s" "score ?s mod 10 = 0" by simp_all
  with sc sp show ?thesis by simp
qed

section \<open>Wall collision\<close>

text \<open>
  C5. In a running state whose head, moved one cell in the direction this step commits
  (the pending direction \<open>nextDirection\<close>; UP is y-1, DOWN is y+1, LEFT is x-1, RIGHT is
  x+1), has x or y outside [0, GRID_SIZE), \<open>step\<close> sets the terminal flag and changes no
  other field.
\<close>

theorem step_wall_collision:
  assumes "\<not> gameOver s"
    and "snake s = h # t"
    and "nh = moveHead (nextDirection s) h"
    and "x nh < 0 \<or> GRID_SIZE \<le> x nh \<or> y nh < 0 \<or> GRID_SIZE \<le> y nh"
  shows "step ar rnd s = s\<lparr>gameOver := True\<rparr> \<and>
         moveHead UP h = \<lparr>x = x h, y = y h - 1\<rparr> \<and>
         moveHead DOWN h = \<lparr>x = x h, y = y h + 1\<rparr> \<and>
         moveHead LEFT h = \<lparr>x = x h - 1, y = y h\<rparr> \<and>
         moveHead RIGHT h = \<lparr>x = x h + 1, y = y h\<rparr>"
  using assms by (simp add: step_def setSnakeUpdater_def hitsWall_def)

theorem step_wall_collision_witness:
  "step exactArith (0, 0) (initialState\<lparr>snake := [\<lparr>x = 19, y = 10\<rparr>]\<rparr>)
     = initialState\<lparr>snake := [\<lparr>x = 19, y = 10\<rparr>], gameOver := True\<rparr>"
  using step_wall_collision [of "initialState\<lparr>snake := [\<lparr>x = 19, y = 10\<rparr>]\<rparr>"
      "\<lparr>x = 19, y = 10\<rparr>" "[]" "\<lparr>x = 20, y = 10\<rparr>" exactArith "(0, 0)"]
  by (simp add: initialState_def GRID_SIZE_def)

section \<open>Terminal states\<close>

text \<open>
  C6. Once the terminal flag is set, any number of \<open>step\<close> calls (with whatever random
  numbers) returns the state as it is: no field changes.
\<close>

theorem step_terminal_noop:
  "gameOver s \<Longrightarrow> fold (step ar) rnds s = s"
  by (induction rnds) (simp_all add: step_terminal)

theorem step_terminal_noop_witness:
  "gameOver (initialState\<lparr>gameOver := True\<rparr>) \<and>
   fold (step exactArith) [(0, 0), (1/2, 1/4), (0, 0)] (initialState\<lparr>gameOver := True\<rparr>)
     = initialState\<lparr>gameOver := True\<rparr>"
  using step_terminal_noop [of "initialState\<lparr>gameOver := True\<rparr>" exactArith "[(0, 0), (1/2, 1/4), (0, 0)]"]
  by simp

section \<open>Reset\<close>

text \<open>
  C9. From any state, \<open>resetGame\<close> gives the fixed configuration: one segment at (10,10),
  committed and pending direction RIGHT, score 0, not terminal, tick interval 150, and
  the food drawn afresh; the result does not depend on the state before, and only its
  food depends on the random numbers. The food is inside the grid for random numbers in
  [0, 1), given that the rounded product of such a number with GRID_SIZE stays in
  [0, GRID_SIZE).
\<close>

theorem resetGame_fixed:
  "resetGame ar rnd s =
     \<lparr>snake = [\<lparr>x = 10, y = 10\<rparr>], food = generateFood ar rnd,
      direction = RIGHT, nextDirection = RIGHT, gameOver = False,
      score = 0, speed = 150, trailEffect = [], lastUpdateTime = 0\<rparr> \<and>
   resetGame ar rnd s = resetGame ar rnd s' \<and>
   resetGame ar rnd' s = (resetGame ar rnd s)\<lparr>food := generateFood ar rnd'\<rparr> \<and>
   ((\<forall>r. 0 \<le> r \<and> r < 1 \<longrightarrow>
        0 \<le> dmul ar r (real_of_int GRID_SIZE) \<and>
        dmul ar r (real_of_int GRID_SIZE) < real_of_int GRID_SIZE) \<and>
    0 \<le> fst rnd \<and> fst rnd < 1 \<and> 0 \<le> snd rnd \<and> snd rnd < 1 \<longrightarrow>
      inGrid (food (resetGame ar rnd s)))"
proof -
  have "inGrid (food (resetGame ar rnd s))"
    if "\<forall>r. 0 \<le> r \<and> r < 1 \<longrightarrow>
          0 \<le> dmul ar r (real_of_int GRID_SIZE) \<and>
          dmul ar r (real_of_int GRID_SIZE) < real_of_int GRID_SIZE"
      and "0 \<le> fst rnd" "fst rnd < 1" "0 \<le> snd rnd" "snd rnd < 1"
    using generateFood_inGrid [OF that] by (simp add: resetGame_def)
  then show ?thesis
    by (simp add: resetGame_def INITIAL_SPEED_def)
qed

theorem resetGame_fixed_witness:
  "resetGame exactArith (1/2, 1/4) loopState =
     \<lparr>snake = [\<lparr>x = 10, y = 10\<rparr>], food = \<lparr>x = 10, y = 5\<rparr>,
      direction = RIGHT, nextDirection = RIGHT, gameOver = False,
      score = 0, speed = 150, trailEffect = [], lastUpdateTime = 0\<rparr> \<and>
   inGrid (food (resetGame exactArith (1/2, 1/4) loopState))"
proof -
  have draws: "0 \<le> fst (1/2 :: real, 1/4 :: real)" "fst (1/2 :: real, 1/4 :: real) < 1"
    "0 \<le> snd (1/2 :: real, 1/4 :: real)" "snd (1/2 :: real, 1/4 :: real) < 1"
    by simp_all
  have food: "generateFood exactArith (1/2, 1/4) = \<lparr>x = 10, y = 5\<rparr>"
    by (simp add: generateFood_def exactArith_def GRID_SIZE_def)
  from resetGame_fixed [of exactArith "(1/2, 1/4)" loopState loopState "(1/2, 1/4)"]
    exactArith_dmul_range draws food
  show ?thesis by (simp add: inGrid_def GRID_SIZE_def)
qed

section \<open>Eating and moving\<close>

text \<open>
  In the following theorems the direction of the move is the pending direction
  \<open>nextDirection\<close> of the state before the step: it is the direction the step commits
  (\<open>setDirection(currentDirection)\<close>).
\<close>

text \<open>
  C2. In a running state whose moved head is inside the grid, on no segment of the body
  and on the food, one \<open>step\<close> puts the new head in front of the unchanged body (length
  plus 1), adds 10 to the score, replaces the tick interval by max(interval - 5, 50)
  (so 5 less when that stays at or above 50, and never less than 50), and draws a new
  food position, all in that one call.
\<close>

theorem step_food_growth:
  assumes "\<not> gameOver s" and "snake s = h # t"
    and "nh = moveHead (nextDirection s) h"
    and "inGrid nh" and "nh \<notin> set (snake s)" and "nh = food s"
  shows "snake (step ar rnd s) = nh # snake s \<and>
         length (snake (step ar rnd s)) = length (snake s) + 1 \<and>
         score (step ar rnd s) = score s + 10 \<and>
         speed (step ar rnd s) = max (speed s - 5) 50 \<and>
         (55 \<le> speed s \<longrightarrow> speed (step ar rnd s) = speed s - 5) \<and>
         50 \<le> speed (step ar rnd s) \<and>
         food (step ar rnd s) = generateFood ar rnd \<and>
         direction (step ar rnd s) = nextDirection s \<and>
         \<not> gameOver (step ar rnd s)"
proof -
  have eq: "step ar rnd s =
           s\<lparr>snake := nh # snake s, food := generateFood ar rnd, score := score s + 10,
             speed := max (speed s - 5) 50,
             trailEffect := trailEffect s @ take 3 (nh # snake s),
             direction := nextDirection s\<rparr>"
    using step_eat [OF assms(1,2)] assms(4,5,6) unfolding assms(3) by blast
  show ?thesis
    unfolding eq using assms(1) by simp
qed

theorem step_food_growth_witness:
  "snake (step exactArith (1/2, 1/4) (initialState\<lparr>snake := [\<lparr>x = 4, y = 5\<rparr>], score := 10, speed := 145\<rparr>))
     = [\<lparr>x = 5, y = 5\<rparr>, \<lparr>x = 4, y = 5\<rparr>] \<and>
   score (step exactArith (1/2, 1/4) (initialState\<lparr>snake := [\<lparr>x = 4, y = 5\<rparr>], score := 10, speed := 145\<rparr>)) = 20 \<and>
   speed (step exactArith (1/2, 1/4) (initialState\<lparr>snake := [\<lparr>x = 4, y = 5\<rparr>], score := 10, speed := 145\<rparr>)) = 140 \<and>
   food (step exactArith (1/2, 1/4) (initialState\<lparr>snake := [\<lparr>x = 4, y = 5\<rparr>], score := 10, speed := 145\<rparr>))
     = \<lparr>x = 10, y = 5\<rparr>"
proof -
  let ?s = "initialState\<lparr>snake := [\<lparr>x = 4, y = 5\<rparr>], score := 10, speed := 145\<rparr>"
  have h: "\<not> gameOver ?s" "snake ?s = [\<lparr>x = 4, y = 5\<rparr>]"
    "\<lparr>x = 5, y = 5\<rparr> = moveHead (nextDirection ?s) \<lparr>x = 4, y = 5\<rparr>"
    "inGrid \<lparr>x = 5, y = 5\<rparr>" "\<lparr>x = 5, y = 5\<rparr> \<notin> set (snake ?s)" "\<lparr>x = 5, y = 5\<rparr> = food ?s"
    by (simp_all add: initialState_def inGrid_def GRID_SIZE_def)
  from step_food_growth [OF h, of exactArith "(1/2, 1/4)"] show ?thesis
    by (simp add: initialState_def generateFood_def exactArith_def GRID_SIZE_def)
qed

text \<open>
  C3, as the code has it. In a running state whose moved head is inside the grid, on no
  segment of the body and not on the food, one \<open>step\<close> keeps the length: the head moves
  one cell in the direction of the step, and every other segment takes the cell that
  the segment in front of it had before the step. Score, tick interval and food stay.
\<close>

theorem step_no_food_shift:
  assumes "\<not> gameOver s" and "snake s = h # t"
    and "nh = moveHead (nextDirection s) h"
    and "inGrid nh" and "nh \<notin> set (snake s)" and "nh \<noteq> food s"
  shows "snake (step ar rnd s) = nh # butlast (snake s) \<and>
         length (snake (step ar rnd s)) = length (snake s) \<and>
         snake (step ar rnd s) ! 0 = moveHead (nextDirection s) (snake s ! 0) \<and>
         (\<forall>i. 0 < i \<and> i < length (snake s) \<longrightarrow> snake (step ar rnd s) ! i = snake s ! (i - 1)) \<and>
         score (step ar rnd s) = score s \<and> speed (step ar rnd s) = speed s \<and>
         food (step ar rnd s) = food s \<and> direction (step ar rnd s) = nextDirection s \<and>
         \<not> gameOver (step ar rnd s)"
proof -
  have eq: "step ar rnd s = s\<lparr>snake := nh # butlast (snake s), direction := nextDirection s\<rparr>"
    using step_move [OF assms(1,2)] assms(4,5,6) unfolding assms(3) by blast
  have nth: "(nh # butlast (snake s)) ! i = snake s ! (i - 1)"
    if "0 < i" "i < length (snake s)" for i
    using that by (cases i) (simp_all add: nth_butlast)
  have hd0: "nh = moveHead (nextDirection s) (snake s ! 0)"
    by (simp add: assms(2,3))
  have len: "length (nh # butlast (snake s)) = length (snake s)"
    by (simp add: assms(2))
  show ?thesis
    unfolding eq using assms(1) nth hd0 len by simp
qed

theorem step_no_food_shift_witness:
  "snake (step exactArith (0, 0) bentState) = [\<lparr>x = 5, y = 4\<rparr>, \<lparr>x = 5, y = 5\<rparr>] \<and>
   snake (step exactArith (0, 0) bentState) ! 1 = snake bentState ! 0"
proof -
  have h: "\<not> gameOver bentState" "snake bentState = [\<lparr>x = 5, y = 5\<rparr>, \<lparr>x = 6, y = 5\<rparr>]"
    "\<lparr>x = 5, y = 4\<rparr> = moveHead (nextDirection bentState) \<lparr>x = 5, y = 5\<rparr>"
    "inGrid \<lparr>x = 5, y = 4\<rparr>" "\<lparr>x = 5, y = 4\<rparr> \<notin> set (snake bentState)"
    "\<lparr>x = 5, y = 4\<rparr> \<noteq> food bentState"
    by (simp_all add: bentState_eq inGrid_def GRID_SIZE_def)
  from step_no_food_shift [OF h, of exactArith "(0, 0)"] show ?thesis
    by (simp add: bentState_eq)
qed

text \<open>
  C3 as stated fails on a snake that turns. In the two-segment state reached by the game
  above, the conditions of the claim hold and the step goes UP; the second segment goes
  from (6,5) to (5,5), which is one cell to the left and not one cell up.
\<close>

theorem step_no_food_counterexample:
  "\<not> gameOver bentState \<and>
   snake bentState = [\<lparr>x = 5, y = 5\<rparr>, \<lparr>x = 6, y = 5\<rparr>] \<and>
   nextDirection bentState = UP \<and>
   inGrid (moveHead UP \<lparr>x = 5, y = 5\<rparr>) \<and>
   moveHead UP \<lparr>x = 5, y = 5\<rparr> \<notin> set (snake bentState) \<and>
   moveHead UP \<lparr>x = 5, y = 5\<rparr> \<noteq> food bentState \<and>
   snake (step exactArith (0, 0) bentState) = [\<lparr>x = 5, y = 4\<rparr>, \<lparr>x = 5, y = 5\<rparr>] \<and>
   snake (step exactArith (0, 0) bentState) ! 1 \<noteq> moveHead UP (snake bentState ! 1)"
  by (simp add: bentState_eq eval_defs)

section \<open>Self collision\<close>

text \<open>
  C4. In a running state whose moved head is inside the grid, \<open>step\<close> ends the game
  exactly when the moved head is on a segment of the body as it is before the move, and
  then changes nothing but the terminal flag. The last segment counts, although a move
  without food would vacate it: moving onto the tail's cell is a collision.
\<close>

theorem step_self_collision:
  assumes "\<not> gameOver s" and "snake s = h # t"
    and "nh = moveHead (nextDirection s) h"
    and "inGrid nh"
  shows "(gameOver (step ar rnd s) \<longleftrightarrow> nh \<in> set (snake s)) \<and>
         (nh \<in> set (snake s) \<longrightarrow> step ar rnd s = s\<lparr>gameOver := True\<rparr>) \<and>
         (nh = last (snake s) \<longrightarrow> step ar rnd s = s\<lparr>gameOver := True\<rparr>)"
proof (cases "nh \<in> set (snake s)")
  case True
  then have "step ar rnd s = s\<lparr>gameOver := True\<rparr>"
    using step_collision [OF assms(1,2)] unfolding assms(3) by blast
  with True show ?thesis by simp
next
  case False
  have "\<not> gameOver (step ar rnd s)"
  proof (cases "nh = food s")
    case True
    have "step ar rnd s =
           s\<lparr>snake := nh # snake s, food := generateFood ar rnd, score := score s + 10,
             speed := max (speed s - 5) 50,
             trailEffect := trailEffect s @ take 3 (nh # snake s),
             direction := nextDirection s\<rparr>"
      using step_eat [OF assms(1,2)] assms(4) False True unfolding assms(3) by blast
    then show ?thesis using assms(1) by simp
  next
    case nf: False
    have "step ar rnd s = s\<lparr>snake := nh # butlast (snake s), direction := nextDirection s\<rparr>"
      using step_move [OF assms(1,2)] assms(4) False nf unfolding assms(3) by blast
    then show ?thesis using assms(1) by simp
  qed
  moreover have "nh \<noteq> last (snake s)"
    using False assms(2) last_in_set [of "snake s"] by auto
  ultimately show ?thesis using False by simp
qed

theorem step_self_collision_witness:
  "gameOver (step exactArith (0, 0) loopState) \<and>
   moveHead (nextDirection loopState) (hd (snake loopState)) = last (snake loopState) \<and>
   step exactArith (0, 0) loopState = loopState\<lparr>gameOver := True\<rparr>"
proof -
  have h: "\<not> gameOver loopState"
    "snake loopState = \<lparr>x = 5, y = 5\<rparr> # [\<lparr>x = 6, y = 5\<rparr>, \<lparr>x = 6, y = 6\<rparr>, \<lparr>x = 5, y = 6\<rparr>]"
    "\<lparr>x = 5, y = 6\<rparr> = moveHead (nextDirection loopState) \<lparr>x = 5, y = 5\<rparr>"
    "inGrid \<lparr>x = 5, y = 6\<rparr>"
    by (simp_all add: loopState_def initialState_def inGrid_def GRID_SIZE_def)
  from step_self_collision [OF h, of exactArith "(0, 0)"] show ?thesis
    by (simp add: loopState_def initialState_def)
qed

section \<open>Direction requests\<close>

text \<open>
  C7, as the code has it. A request for direction \<open>r\<close> (button or arrow key) overwrites
  the pending direction when \<open>r\<close> is not the opposite of the committed direction, and
  otherwise leaves the whole state as it is. A step after a rejected request is the step
  that would have happened without the request: it moves in the pending direction, which
  is the committed direction if no other request was accepted since the last step.
\<close>

theorem requestDirection_checked_against_committed:
  "(r \<noteq> opposite (direction s) \<longrightarrow> requestDirection r s = s\<lparr>nextDirection := r\<rparr>) \<and>
   (r = opposite (direction s) \<longrightarrow> requestDirection r s = s) \<and>
   handleKeyDown (arrowKey r) s = requestDirection r s \<and>
   (r = opposite (direction s) \<longrightarrow> step ar rnd (requestDirection r s) = step ar rnd s) \<and>
   (r = opposite (direction s) \<and> \<not> gameOver s \<and> snake s = h # t \<and>
    inGrid (moveHead (nextDirection s) h) \<and> moveHead (nextDirection s) h \<notin> set (snake s) \<longrightarrow>
      hd (snake (step ar rnd (requestDirection r s))) = moveHead (nextDirection s) h) \<and>
   (r = opposite (direction s) \<and> nextDirection s = direction s \<and> \<not> gameOver s \<and> snake s = h # t \<and>
    inGrid (moveHead (direction s) h) \<and> moveHead (direction s) h \<notin> set (snake s) \<longrightarrow>
      hd (snake (step ar rnd (requestDirection r s))) = moveHead (direction s) h)"
proof -
  have rej: "requestDirection r s = s" if "r = opposite (direction s)"
    using that by (rule requestDirection_reject)
  have mv: "hd (snake (step ar rnd (requestDirection r s))) = moveHead (nextDirection s) h"
    if "r = opposite (direction s)" "\<not> gameOver s" "snake s = h # t"
      "inGrid (moveHead (nextDirection s) h)" "moveHead (nextDirection s) h \<notin> set (snake s)"
    using step_head [OF that(2-5)] rej [OF that(1)] by simp
  have mv': "hd (snake (step ar rnd (requestDirection r s))) = moveHead (direction s) h"
    if "r = opposite (direction s)" "nextDirection s = direction s" "\<not> gameOver s" "snake s = h # t"
      "inGrid (moveHead (direction s) h)" "moveHead (direction s) h \<notin> set (snake s)"
    using mv [OF that(1) that(3) that(4)] that(2,5,6) by simp
  have st: "step ar rnd (requestDirection r s) = step ar rnd s" if "r = opposite (direction s)"
    using rej [OF that] by simp
  show ?thesis
    using requestDirection_accept [of r s] rej st mv mv' handleKeyDown_arrowKey [of r s]
    by blast
qed

theorem requestDirection_checked_against_committed_witness:
  "requestDirection UP initialState = initialState\<lparr>nextDirection := UP\<rparr> \<and>
   requestDirection LEFT initialState = initialState \<and>
   hd (snake (step exactArith (0, 0) (requestDirection LEFT initialState))) = \<lparr>x = 11, y = 10\<rparr>"
proof -
  have a: "UP \<noteq> opposite (direction initialState)" "LEFT = opposite (direction initialState)"
    "nextDirection initialState = direction initialState"
    "\<not> gameOver initialState" "snake initialState = \<lparr>x = 10, y = 10\<rparr> # []"
    "inGrid (moveHead (direction initialState) \<lparr>x = 10, y = 10\<rparr>)"
    "moveHead (direction initialState) \<lparr>x = 10, y = 10\<rparr> \<notin> set (snake initialState)"
    by (simp_all add: initialState_def inGrid_def GRID_SIZE_def)
  have c: "moveHead (direction initialState) \<lparr>x = 10, y = 10\<rparr> = \<lparr>x = 11, y = 10\<rparr>"
    by (simp add: initialState_def)
  have 1: "requestDirection UP initialState = initialState\<lparr>nextDirection := UP\<rparr>"
    using requestDirection_checked_against_committed
      [of UP initialState exactArith "(0, 0)" "\<lparr>x = 10, y = 10\<rparr>" "[]"] a(1) by blast
  have 2: "requestDirection LEFT initialState = initialState"
    and 3: "hd (snake (step exactArith (0, 0) (requestDirection LEFT initialState)))
              = moveHead (direction initialState) \<lparr>x = 10, y = 10\<rparr>"
    using requestDirection_checked_against_committed
      [of LEFT initialState exactArith "(0, 0)" "\<lparr>x = 10, y = 10\<rparr>" "[]"] a(2-7) by blast+
  from 1 2 3 c show ?thesis by metis
qed

text \<open>
  C7 as stated fails when another request was accepted since the last step. At the start
  of a game the up button is accepted (pending UP, committed still RIGHT); LEFT is then
  rejected, being the opposite of RIGHT; the next step moves the head up to (10,9), not
  in the committed direction RIGHT to (11,10).
\<close>

theorem rejected_reversal_counterexample:
  "direction pendingUpState = RIGHT \<and>
   requestDirection LEFT pendingUpState = pendingUpState \<and>
   handleKeyDown ''ArrowLeft'' pendingUpState = pendingUpState \<and>
   snake pendingUpState = [\<lparr>x = 10, y = 10\<rparr>] \<and>
   snake (step exactArith (0, 0) (requestDirection LEFT pendingUpState)) = [\<lparr>x = 10, y = 9\<rparr>] \<and>
   hd (snake (step exactArith (0, 0) (requestDirection LEFT pendingUpState)))
     \<noteq> moveHead (direction pendingUpState) (hd (snake pendingUpState))"
  by (simp add: pendingUpState_def eval_defs)

section \<open>The tick scheduler\<close>

text \<open>
  C8, as the code has it. The baseline is unset when it is 0, and a terminal state
  ignores frames. The elapsed time is the difference of timestamp and baseline as the
  engine computes it in doubles: it is 0 for equal arguments and exact for whole numbers
  of milliseconds (up to \<open>2 ^ 53\<close>), and otherwise rounded. In a running state with a
  positive tick interval, a frame with timestamp \<open>T\<close>: stores \<open>T\<close> as baseline and takes
  no step when the baseline is unset (so a frame at 0 leaves it unset); changes nothing
  when the elapsed time is less than the tick interval; and takes exactly one step, with
  the baseline set to \<open>T\<close>, when it is at least the tick interval. With tick interval 150
  and an unset baseline, frames at 1, 100 and 160 give no step at 1 and at 100 and one
  step at 160 with baseline 160; frames at 0, 100 and 160 give no step at all and leave
  the baseline at 100.
\<close>

theorem moveSnake_scheduler:
  assumes same: "\<forall>a. dsub ar a a = 0"
    and whole: "\<forall>i j. 0 \<le> i \<and> i \<le> 2 ^ 53 \<and> 0 \<le> j \<and> j \<le> 2 ^ 53 \<longrightarrow>
                  dsub ar (real_of_int i) (real_of_int j) = real_of_int (i - j)"
  shows
  "(gameOver s \<longrightarrow> moveSnake ar rnd T s = s) \<and>
   (\<not> gameOver s \<and> 0 < speed s \<and> lastUpdateTime s = 0 \<longrightarrow>
      moveSnake ar rnd T s = s\<lparr>lastUpdateTime := T\<rparr>) \<and>
   (\<not> gameOver s \<and> lastUpdateTime s \<noteq> 0 \<and>
    dsub ar T (lastUpdateTime s) < real_of_int (speed s) \<longrightarrow>
      moveSnake ar rnd T s = s) \<and>
   (\<not> gameOver s \<and> lastUpdateTime s \<noteq> 0 \<and>
    real_of_int (speed s) \<le> dsub ar T (lastUpdateTime s) \<longrightarrow>
      moveSnake ar rnd T s = step ar rnd (s\<lparr>lastUpdateTime := T\<rparr>) \<and>
      lastUpdateTime (moveSnake ar rnd T s) = T) \<and>
   (\<not> gameOver s \<and> speed s = 150 \<and> lastUpdateTime s = 0 \<longrightarrow>
      moveSnake ar rnd 1 s = s\<lparr>lastUpdateTime := 1\<rparr> \<and>
      moveSnake ar rnd 100 (s\<lparr>lastUpdateTime := 1\<rparr>) = s\<lparr>lastUpdateTime := 1\<rparr> \<and>
      moveSnake ar rnd 160 (s\<lparr>lastUpdateTime := 1\<rparr>) = step ar rnd (s\<lparr>lastUpdateTime := 160\<rparr>) \<and>
      lastUpdateTime (moveSnake ar rnd 160 (s\<lparr>lastUpdateTime := 1\<rparr>)) = 160) \<and>
   (\<not> gameOver s \<and> speed s = 150 \<and> lastUpdateTime s = 0 \<longrightarrow>
      moveSnake ar rnd 0 s = s \<and>
      moveSnake ar rnd 100 s = s\<lparr>lastUpdateTime := 100\<rparr> \<and>
      moveSnake ar rnd 160 (s\<lparr>lastUpdateTime := 100\<rparr>) = s\<lparr>lastUpdateTime := 100\<rparr>)"
proof -
  have eq: "dsub ar a a = 0" for a
    using same by blast
  have d100: "dsub ar 100 1 = 99"
    using whole [rule_format, of 100 1] by simp
  have d160: "dsub ar 160 1 = 159"
    using whole [rule_format, of 160 1] by simp
  have d60: "dsub ar 160 100 = 60"
    using whole [rule_format, of 160 100] by simp
  have tick: "lastUpdateTime (step ar rnd (s\<lparr>lastUpdateTime := T\<rparr>)) = T"
    by (simp add: lastUpdateTime_step)
  have general: "(gameOver s \<longrightarrow> moveSnake ar rnd T s = s) \<and>
     (\<not> gameOver s \<and> 0 < speed s \<and> lastUpdateTime s = 0 \<longrightarrow>
        moveSnake ar rnd T s = s\<lparr>lastUpdateTime := T\<rparr>) \<and>
     (\<not> gameOver s \<and> lastUpdateTime s \<noteq> 0 \<and>
      dsub ar T (lastUpdateTime s) < real_of_int (speed s) \<longrightarrow>
        moveSnake ar rnd T s = s) \<and>
     (\<not> gameOver s \<and> lastUpdateTime s \<noteq> 0 \<and>
      real_of_int (speed s) \<le> dsub ar T (lastUpdateTime s) \<longrightarrow>
        moveSnake ar rnd T s = step ar rnd (s\<lparr>lastUpdateTime := T\<rparr>) \<and>
        lastUpdateTime (moveSnake ar rnd T s) = T)"
    using tick moveSnake_terminal [where s = s and ar = ar and rnd = rnd and timestamp = T]
      moveSnake_unset [where s = s and ar = ar and rnd = rnd and T = T, OF _ _ _ eq]
      moveSnake_wait [where s = s and ar = ar and rnd = rnd and T = T]
      moveSnake_tick [where s = s and ar = ar and rnd = rnd and T = T]
    by metis
  have from1: "moveSnake ar rnd 1 s = s\<lparr>lastUpdateTime := 1\<rparr> \<and>
      moveSnake ar rnd 100 (s\<lparr>lastUpdateTime := 1\<rparr>) = s\<lparr>lastUpdateTime := 1\<rparr> \<and>
      moveSnake ar rnd 160 (s\<lparr>lastUpdateTime := 1\<rparr>) = step ar rnd (s\<lparr>lastUpdateTime := 160\<rparr>) \<and>
      lastUpdateTime (moveSnake ar rnd 160 (s\<lparr>lastUpdateTime := 1\<rparr>)) = 160"
    if "\<not> gameOver s" "speed s = 150" "lastUpdateTime s = 0"
    using that eq d100 d160
    by (simp add: moveSnake_def step_def lastUpdateTime_setSnakeUpdater)
  have from0: "moveSnake ar rnd 0 s = s \<and>
      moveSnake ar rnd 100 s = s\<lparr>lastUpdateTime := 100\<rparr> \<and>
      moveSnake ar rnd 160 (s\<lparr>lastUpdateTime := 100\<rparr>) = s\<lparr>lastUpdateTime := 100\<rparr>"
    if "\<not> gameOver s" "speed s = 150" "lastUpdateTime s = 0"
    using that eq d60 by (simp add: moveSnake_def)
  from general from1 from0 show ?thesis by blast
qed

theorem moveSnake_scheduler_witness:
  "moveSnake exactArith (0, 0) 1 initialState = initialState\<lparr>lastUpdateTime := 1\<rparr> \<and>
   moveSnake exactArith (0, 0) 100 (initialState\<lparr>lastUpdateTime := 1\<rparr>)
     = initialState\<lparr>lastUpdateTime := 1\<rparr> \<and>
   moveSnake exactArith (0, 0) 160 (initialState\<lparr>lastUpdateTime := 1\<rparr>)
     = step exactArith (0, 0) (initialState\<lparr>lastUpdateTime := 160\<rparr>) \<and>
   lastUpdateTime (moveSnake exactArith (0, 0) 160 (initialState\<lparr>lastUpdateTime := 1\<rparr>)) = 160 \<and>
   snake (moveSnake exactArith (0, 0) 160 (initialState\<lparr>lastUpdateTime := 1\<rparr>)) = [\<lparr>x = 11, y = 10\<rparr>]"
proof -
  let ?s1 = "initialState\<lparr>lastUpdateTime := 1\<rparr>"
  note sched = moveSnake_scheduler [OF exactArith_dsub_same exactArith_dsub_whole]
  have a: "\<not> gameOver initialState" "0 < speed initialState" "lastUpdateTime initialState = 0"
    by (simp_all add: initialState_def INITIAL_SPEED_def)
  have b: "\<not> gameOver ?s1" "lastUpdateTime ?s1 \<noteq> 0"
    "dsub exactArith 100 (lastUpdateTime ?s1) < real_of_int (speed ?s1)"
    "real_of_int (speed ?s1) \<le> dsub exactArith 160 (lastUpdateTime ?s1)"
    by (simp_all add: initialState_def INITIAL_SPEED_def exactArith_def)
  have 1: "moveSnake exactArith (0, 0) 1 initialState = ?s1"
    using sched [where s = initialState and rnd = "(0, 0)" and T = 1] a by blast
  have 2: "moveSnake exactArith (0, 0) 100 ?s1 = ?s1"
    using sched [where s = ?s1 and rnd = "(0, 0)" and T = 100] b(1,2,3) by blast
  have 3: "moveSnake exactArith (0, 0) 160 ?s1 = step exactArith (0, 0) (?s1\<lparr>lastUpdateTime := 160\<rparr>)"
    and 4: "lastUpdateTime (moveSnake exactArith (0, 0) 160 ?s1) = 160"
    using sched [where s = ?s1 and rnd = "(0, 0)" and T = 160] b(1,2,4) by blast+
  have 5: "snake (step exactArith (0, 0) (?s1\<lparr>lastUpdateTime := 160\<rparr>)) = [\<lparr>x = 11, y = 10\<rparr>]"
    by (simp add: eval_defs)
  from 1 2 3 4 5 show ?thesis by simp
qed

text \<open>
  C8 as stated fails on its own scenario, whose timestamps are whole numbers, so that
  the elapsed times are exact. From the start of a game (tick interval 150, baseline
  unset) the frame at 0 stores 0, which still reads as unset; the frame at 100 therefore
  becomes the baseline; at 160 only 60 have elapsed, so no step is taken and the
  baseline stays at 100.
\<close>

theorem moveSnake_scheduler_counterexample:
  "speed initialState = 150 \<and> \<not> gameOver initialState \<and>
   moveSnake exactArith (0, 0) 0 initialState = initialState \<and>
   moveSnake exactArith (0, 0) 100 (moveSnake exactArith (0, 0) 0 initialState)
     = initialState\<lparr>lastUpdateTime := 100\<rparr> \<and>
   moveSnake exactArith (0, 0) 160
      (moveSnake exactArith (0, 0) 100 (moveSnake exactArith (0, 0) 0 initialState))
     = initialState\<lparr>lastUpdateTime := 100\<rparr> \<and>
   moveSnake exactArith (0, 0) 160
      (moveSnake exactArith (0, 0) 100 (moveSnake exactArith (0, 0) 0 initialState))
     \<noteq> step exactArith (0, 0)
          ((moveSnake exactArith (0, 0) 100 (moveSnake exactArith (0, 0) 0 initialState))
             \<lparr>lastUpdateTime := 160\<rparr>) \<and>
   lastUpdateTime
     (moveSnake exactArith (0, 0) 160
        (moveSnake exactArith (0, 0) 100 (moveSnake exactArith (0, 0) 0 initialState))) \<noteq> 160"
  by (simp add: moveSnake_def eval_defs)

end
